theory Spec2Isabelle
  imports Complex_Main
begin

section \<open>Python values\<close>

text \<open>
  The script \<^verbatim>\<open>app1.py\<close> is dynamically typed: the third argument of
  \<^verbatim>\<open>calculate_health_metrics\<close> is compared with a string in the body and is a
  boolean at the call site, and the feature list mixes integers and floats. The values
  that occur are integers, floats, booleans and strings.

  A float is modelled by the real number it denotes. The comparisons of the script
  (\<^verbatim>\<open><\<close>, \<^verbatim>\<open><=\<close>, \<^verbatim>\<open>>\<close>) are exact on finite floats, and the
  thresholds 18.5, 25, 30, 50 and 10000 are floats themselves, so the comparisons of the
  model are the comparisons of the script.
\<close>

datatype pyval = PyInt int | PyFloat real | PyBool bool | PyStr string

text \<open>The number a value denotes; a boolean is the integer 0 or 1, a string is no number.\<close>

fun num_of :: "pyval \<Rightarrow> real option" where
  "num_of (PyInt i) = Some (of_int i)"
| "num_of (PyFloat x) = Some x"
| "num_of (PyBool b) = Some (if b then 1 else 0)"
| "num_of (PyStr s) = None"

text \<open>
  Python's \<^verbatim>\<open>==\<close>: two strings are equal when they are the same string, two numbers
  when they denote the same number, and a string never equals a number, so
  \<^verbatim>\<open>True == "Yes"\<close> is \<^verbatim>\<open>False\<close>.
\<close>

fun py_eq :: "pyval \<Rightarrow> pyval \<Rightarrow> bool" where
  "py_eq (PyStr s) (PyStr t) = (s = t)"
| "py_eq a b = (case (num_of a, num_of b) of (Some x, Some y) \<Rightarrow> x = y | _ \<Rightarrow> False)"

fun is_numeric :: "pyval \<Rightarrow> bool" where
  "is_numeric (PyInt i) = True"
| "is_numeric (PyFloat x) = True"
| "is_numeric (PyBool b) = True"
| "is_numeric (PyStr s) = False"

section \<open>The risk scorer\<close>

text \<open>
  \<^verbatim>\<open>calculate_health_metrics(age, bmi, smoker)\<close>, lines 137 to 155. The local
  variable \<^verbatim>\<open>risk_score\<close> starts at 0 and is increased three times;
  \<open>risk_score_raw\<close> is its value at the \<^verbatim>\<open>return\<close>, and the function returns
  \<^verbatim>\<open>min(risk_score, 100)\<close>. Python's \<^verbatim>\<open>//\<close> on integers rounds towards minus
  infinity, as \<open>div\<close> on \<open>int\<close> does.
\<close>

definition risk_score_raw :: "int \<Rightarrow> real \<Rightarrow> pyval \<Rightarrow> int" where
  "risk_score_raw age bmi smoker =
     (let risk_score = 0;
          risk_score = risk_score + (age div 10) * 5;
          risk_score =
            (if bmi < 18.5 then risk_score + 10
             else if 18.5 \<le> bmi \<and> bmi < 25 then risk_score + 0
             else if 25 \<le> bmi \<and> bmi < 30 then risk_score + 15
             else risk_score + 25);
          risk_score =
            (if py_eq smoker (PyStr ''Yes'') then risk_score + 50 else risk_score)
      in risk_score)"

definition calculate_health_metrics :: "int \<Rightarrow> real \<Rightarrow> pyval \<Rightarrow> int" where
  "calculate_health_metrics age bmi smoker = min (risk_score_raw age bmi smoker) 100"

text \<open>
  The call site, line 266: \<^verbatim>\<open>calculate_health_metrics(age, bmi, smoker == "Yes")\<close>,
  where \<^verbatim>\<open>smoker\<close> is the string the radio button returned.
\<close>

definition risk_score :: "int \<Rightarrow> real \<Rightarrow> string \<Rightarrow> int" where
  "risk_score age bmi smoker =
     calculate_health_metrics age bmi (PyBool (py_eq (PyStr smoker) (PyStr ''Yes'')))"

text \<open>The BMI factor as the specification words it: four half-open buckets.\<close>

definition spec_bmiFactor :: "real \<Rightarrow> int" where
  "spec_bmiFactor bmi =
     (if bmi < 18.5 then 10 else if bmi < 25 then 0 else if bmi < 30 then 15 else 25)"

section \<open>The feature encoder\<close>

text \<open>
  The six widget values of lines 228 to 239 are kept in the module-level variables
  \<^verbatim>\<open>gender\<close>, \<^verbatim>\<open>age\<close>, \<^verbatim>\<open>bmi\<close>, \<^verbatim>\<open>smoker\<close>,
  \<^verbatim>\<open>region\<close> and \<^verbatim>\<open>children\<close>; the model passes them as arguments, in
  this order. \<open>valid_input\<close> says what the widgets can return: the options of the two
  select boxes and of the radio button, and the bounds of the sliders and of the number
  input.
\<close>

definition valid_input :: "string \<Rightarrow> int \<Rightarrow> real \<Rightarrow> string \<Rightarrow> string \<Rightarrow> int \<Rightarrow> bool" where
  "valid_input gender age bmi smoker region children =
     (gender \<in> set [''Female'', ''Male''] \<and>
      18 \<le> age \<and> age \<le> 100 \<and>
      15 \<le> bmi \<and> bmi \<le> 50 \<and>
      smoker \<in> set [''No'', ''Yes''] \<and>
      region \<in> set [''northeast'', ''northwest'', ''southeast'', ''southwest''] \<and>
      0 \<le> children \<and> children \<le> 10)"

text \<open>
  A dictionary literal is an association list; subscripting it with a key it does not
  hold raises \<^verbatim>\<open>KeyError\<close>, which carries the key.
\<close>

datatype error = KeyError string

definition subscript :: "(string \<times> 'v) list \<Rightarrow> string \<Rightarrow> error + 'v" where
  "subscript d k = (case map_of d k of None \<Rightarrow> Inl (KeyError k) | Some v \<Rightarrow> Inr v)"

definition gender_mapping :: "(string \<times> int) list" where
  "gender_mapping = [(''Female'', 0), (''Male'', 1)]"

definition smoker_mapping :: "(string \<times> int) list" where
  "smoker_mapping = [(''Yes'', 1), (''No'', 0)]"

definition region_mapping :: "(string \<times> int list) list" where
  "region_mapping =
     [(''northeast'', [1, 0, 0]),
      (''northwest'', [0, 1, 0]),
      (''southeast'', [0, 0, 1]),
      (''southwest'', [0, 0, 0])]"

text \<open>
  The list display of lines 253 to 260. Its elements are evaluated from left to right, so
  the first failing subscript is the one that raises; \<^verbatim>\<open>*region_mapping[region]\<close>
  splices the three flags into the list.
\<close>

definition input_data ::
  "string \<Rightarrow> int \<Rightarrow> real \<Rightarrow> string \<Rightarrow> string \<Rightarrow> int \<Rightarrow> error + pyval list" where
  "input_data gender age bmi smoker region children =
     (case subscript gender_mapping gender of
        Inl e \<Rightarrow> Inl e
      | Inr g \<Rightarrow>
          (case subscript smoker_mapping smoker of
             Inl e \<Rightarrow> Inl e
           | Inr s \<Rightarrow>
               (case subscript region_mapping region of
                  Inl e \<Rightarrow> Inl e
                | Inr flags \<Rightarrow>
                    Inr ([PyInt g, PyInt age, PyFloat bmi, PyInt s]
                         @ map PyInt flags @ [PyInt children]))))"

section \<open>Cost rating and recommendations\<close>

text \<open>
  Line 293: \<^verbatim>\<open>"Average" if prediction < 10000 else "High"\<close>. The prediction is
  only compared here, so it is the real number the float denotes.
\<close>

definition cost_rating :: "real \<Rightarrow> string" where
  "cost_rating prediction = (if prediction < 10000 then ''Average'' else ''High'')"

text \<open>
  The four recommendation lines. Each starts with a bullet, U+2022, which is the three
  bytes E2 80 A2 in the UTF-8 source.
\<close>

definition bullet :: string where
  "bullet = [CHR 0xE2, CHR 0x80, CHR 0xA2]"

definition rec_wellness :: string where
  "rec_wellness = bullet @ '' Consider a wellness program to maintain a healthy BMI''"

definition rec_quitting :: string where
  "rec_quitting = bullet @ '' Quitting smoking could significantly reduce your premium''"

definition rec_checkup :: string where
  "rec_checkup = bullet @ '' Regular health check-ups recommended''"

definition rec_default :: string where
  "rec_default = bullet @ '' Continue maintaining your healthy lifestyle''"

text \<open>
  Lines 305 to 314: the list \<^verbatim>\<open>recommendations\<close> starts empty and each
  \<^verbatim>\<open>if\<close> appends to it; here \<^verbatim>\<open>smoker\<close> is the string of the radio button.
\<close>

definition recommendations :: "real \<Rightarrow> string \<Rightarrow> int \<Rightarrow> string list" where
  "recommendations bmi smoker age =
     (let recs = [];
          recs = (if bmi > 25 then recs @ [rec_wellness] else recs);
          recs = (if smoker = ''Yes'' then recs @ [rec_quitting] else recs);
          recs = (if age > 50 then recs @ [rec_checkup] else recs);
          recs = (if recs = [] then recs @ [rec_default] else recs)
      in recs)"

section \<open>The cost allocator\<close>

text \<open>
  \<^verbatim>\<open>create_cost_breakdown\<close> multiplies the prediction by float literals, and a
  float product is rounded, so here the floats are modelled as the IEEE 754 binary64
  numbers they are. \<open>Double m e\<close> denotes the number \<open>m * 2 ^ e\<close>; the finite
  binary64 numbers are those with a significand below \<open>2 ^ 53\<close> and an exponent from
  -1074 to 971.
\<close>

datatype double = Double int int

fun valof :: "double \<Rightarrow> real" where
  "valof (Double m e) = of_int m * 2 powi e"

fun is_double :: "double \<Rightarrow> bool" where
  "is_double (Double m e) = (\<bar>m\<bar> < 2 ^ 53 \<and> - 1074 \<le> e \<and> e \<le> 971)"

text \<open>
  A Python float is a finite binary64 number, an infinity or a NaN. \<open>None\<close> stands
  for the infinities and the NaN: no product and no sum with one of them is finite again.
\<close>

type_synonym pyfloat = "double option"

text \<open>The number of bits of a natural number, Python's \<^verbatim>\<open>int.bit_length\<close>.\<close>

fun bit_length :: "nat \<Rightarrow> nat" where
  "bit_length n = (if n = 0 then 0 else Suc (bit_length (n div 2)))"

text \<open>\<open>m / 2 ^ k\<close> rounded to the nearest integer, a tie to the even one.\<close>

definition round_half_even :: "int \<Rightarrow> nat \<Rightarrow> int" where
  "round_half_even m k =
     (let q = m div 2 ^ k; r = m mod 2 ^ k
      in if 2 * r < 2 ^ k then q
         else if 2 * r > 2 ^ k then q + 1
         else if even q then q else q + 1)"

definition overflow_threshold :: real where
  "overflow_threshold = 2 powi 1024"

text \<open>
  The exact result \<open>m * 2 ^ e\<close> of an operation, rounded to binary64 in the default mode
  (to nearest, ties to even). \<open>k\<close> low bits of \<open>m\<close> are dropped: as many as leave 53
  bits, and as many as bring the exponent up to -1074 (a subnormal result). A rounded
  magnitude of \<open>2 ^ 1024\<close> or more is an overflow, which gives an infinity.
\<close>

definition round_double :: "int \<Rightarrow> int \<Rightarrow> pyfloat" where
  "round_double m e =
     (let k = max (int (bit_length (nat \<bar>m\<bar>)) - 53) (- 1074 - e);
          d = (if k \<le> 0 then Double m e else Double (round_half_even m (nat k)) (e + k))
      in if overflow_threshold \<le> \<bar>valof d\<bar> then None else Some d)"

text \<open>The float product and the float sum of two finite numbers.\<close>

fun fmul :: "double \<Rightarrow> double \<Rightarrow> pyfloat" where
  "fmul (Double m1 e1) (Double m2 e2) = round_double (m1 * m2) (e1 + e2)"

fun fadd :: "double \<Rightarrow> double \<Rightarrow> pyfloat" where
  "fadd (Double m1 e1) (Double m2 e2) =
     (let e = min e1 e2
      in round_double (m1 * 2 ^ nat (e1 - e) + m2 * 2 ^ nat (e2 - e)) e)"

text \<open>Python's \<^verbatim>\<open>*\<close> and \<^verbatim>\<open>+\<close> on floats.\<close>

fun py_mul :: "pyfloat \<Rightarrow> pyfloat \<Rightarrow> pyfloat" where
  "py_mul (Some a) (Some b) = fmul a b"
| "py_mul _ _ = None"

fun py_add :: "pyfloat \<Rightarrow> pyfloat \<Rightarrow> pyfloat" where
  "py_add (Some a) (Some b) = fadd a b"
| "py_add _ _ = None"

text \<open>
  The script never adds the five values; the specification's test does, as
  \<^verbatim>\<open>sum(allocate(p).values)\<close>. \<open>py_sum\<close> is that sum as a plain loop computes
  it: the values added from left to right, starting from 0, each sum rounded.
\<close>

definition py_sum :: "pyfloat list \<Rightarrow> pyfloat" where
  "py_sum vs = foldl py_add (Some (Double 0 0)) vs"

text \<open>
  The float literals \<^verbatim>\<open>0.4\<close>, \<^verbatim>\<open>0.15\<close>, \<^verbatim>\<open>0.2\<close> and \<^verbatim>\<open>0.1\<close>:
  the binary64 numbers nearest to the decimals (none of the four decimals is a binary64
  number itself).
\<close>

definition lit_0_4 :: pyfloat where "lit_0_4 = Some (Double 7205759403792794 (- 54))"

definition lit_0_15 :: pyfloat where "lit_0_15 = Some (Double 5404319552844595 (- 55))"

definition lit_0_2 :: pyfloat where "lit_0_2 = Some (Double 7205759403792794 (- 55))"

definition lit_0_1 :: pyfloat where "lit_0_1 = Some (Double 7205759403792794 (- 56))"

text \<open>
  \<^verbatim>\<open>create_cost_breakdown(prediction)\<close>, lines 185 to 194: the labels and the values
  it hands to the pie chart. The rest of the function lays the chart out.
\<close>

definition create_cost_breakdown :: "pyfloat \<Rightarrow> string list \<times> pyfloat list" where
  "create_cost_breakdown prediction =
     (let labels = [''Base Cost'', ''Age Factor'', ''BMI Factor'', ''Smoking Factor'',
                    ''Region Factor''];
          base_cost = py_mul prediction lit_0_4;
          values =
            [base_cost,
             py_mul prediction lit_0_15,
             py_mul prediction lit_0_15,
             py_mul prediction lit_0_2,
             py_mul prediction lit_0_1]
      in (labels, values))"

section \<open>Properties of the risk scorer\<close>

text \<open>
  C1. The specification has the scorer add 50 for a smoker, so that
  \<open>score(55, 32.0, true)\<close> is 100. The body compares its third argument with the string
  \<^verbatim>\<open>"Yes"\<close>, and the call site has already turned the string into a boolean, which
  equals no string: at age 55, BMI 32.0 and a smoker the scorer returns 25 + 25 = 50.
\<close>

theorem smoker_factor_lost:
  "calculate_health_metrics 55 32 (PyBool True) = 50 \<and> risk_score 55 32 ''Yes'' = 50"
  by (simp add: risk_score_def calculate_health_metrics_def risk_score_raw_def)

text \<open>
  C4. The score is the age factor \<open>floor(age / 10) * 5\<close> plus the BMI factor of the
  specification's four half-open buckets plus what the smoker test adds, clamped at 100.
  A BMI of exactly 25 is in the 15-point bucket, a BMI of exactly 18.5 in the 0-point
  bucket, and \<open>score(19, 17.0, false)\<close> is 15.
\<close>

theorem risk_score_buckets:
  "calculate_health_metrics age bmi s =
     min ((age div 10) * 5 + spec_bmiFactor bmi
          + (if py_eq s (PyStr ''Yes'') then 50 else 0)) 100 \<and>
   spec_bmiFactor 25 = 15 \<and> spec_bmiFactor 18.5 = 0 \<and>
   calculate_health_metrics 19 17 (PyBool False) = 15"
  by (simp add: calculate_health_metrics_def risk_score_raw_def spec_bmiFactor_def Let_def)

text \<open>
  C8. For an age from 18 to 100, a BMI from 15.0 to 50.0 and any third argument, the sum of
  the factors is not negative, the result is that sum clamped from above at 100 only, and
  the result lies between 0 and 100.
\<close>

theorem risk_score_in_range:
  "18 \<le> age \<Longrightarrow> age \<le> 100 \<Longrightarrow> 15 \<le> bmi \<Longrightarrow> bmi \<le> 50 \<Longrightarrow>
   0 \<le> risk_score_raw age bmi s \<and>
   calculate_health_metrics age bmi s = min (risk_score_raw age bmi s) 100 \<and>
   0 \<le> calculate_health_metrics age bmi s \<and> calculate_health_metrics age bmi s \<le> 100"
  by (auto simp add: calculate_health_metrics_def risk_score_raw_def Let_def)

text \<open>
  The largest inputs, with the string \<^verbatim>\<open>"Yes"\<close> as third argument: the sum is
  50 + 25 + 50 = 125 and the clamp brings it to 100.
\<close>

theorem risk_score_in_range_witness:
  "risk_score_raw 100 50 (PyStr ''Yes'') = 125 \<and>
   0 \<le> risk_score_raw 100 50 (PyStr ''Yes'') \<and>
   calculate_health_metrics 100 50 (PyStr ''Yes'') =
     min (risk_score_raw 100 50 (PyStr ''Yes'')) 100 \<and>
   0 \<le> calculate_health_metrics 100 50 (PyStr ''Yes'') \<and>
   calculate_health_metrics 100 50 (PyStr ''Yes'') \<le> 100"
  using risk_score_in_range [of 100 50 "PyStr ''Yes''"]
  by (simp add: risk_score_raw_def)

text \<open>
  C9. As the script calls it, the scorer does not depend on the smoking status: any two
  answers of the radio button give the same score, because the boolean the call site
  passes never equals the string \<^verbatim>\<open>"Yes"\<close> the body compares it with.
\<close>

theorem risk_score_ignores_smoker:
  "risk_score age bmi smoker = risk_score age bmi smoker' \<and>
   calculate_health_metrics age bmi (PyBool True) =
     calculate_health_metrics age bmi (PyBool False) \<and>
   \<not> py_eq (PyBool b) (PyStr ''Yes'')"
  by (simp add: risk_score_def calculate_health_metrics_def risk_score_raw_def)

section \<open>Properties of the feature encoder\<close>

text \<open>On the values the widgets can return no subscript fails, and the list is this one.\<close>

lemma input_data_valid:
  assumes "valid_input gender age bmi smoker region children"
  shows "input_data gender age bmi smoker region children =
     Inr [PyInt (if gender = ''Male'' then 1 else 0), PyInt age, PyFloat bmi,
          PyInt (if smoker = ''Yes'' then 1 else 0),
          PyInt (if region = ''northeast'' then 1 else 0),
          PyInt (if region = ''northwest'' then 1 else 0),
          PyInt (if region = ''southeast'' then 1 else 0),
          PyInt children]"
proof -
  from assms have g: "gender = ''Female'' \<or> gender = ''Male''"
    and s: "smoker = ''No'' \<or> smoker = ''Yes''"
    and r: "region = ''northeast'' \<or> region = ''northwest'' \<or> region = ''southeast''
            \<or> region = ''southwest''"
    by (auto simp: valid_input_def)
  from g s r show ?thesis
    by (auto simp: input_data_def subscript_def gender_mapping_def smoker_mapping_def
        region_mapping_def)
qed

text \<open>
  C2, as the specification states it, fails: the list has the gender code, the age, the
  BMI, the smoker code, three region flags and the number of children, which makes eight
  elements, not seven. Here for a 25-year-old non-smoking woman of the southwest.
\<close>

theorem feature_vector_not_7:
  "valid_input ''Female'' 25 25 ''No'' ''southwest'' 0 \<and>
   \<not> (\<exists>xs. input_data ''Female'' 25 25 ''No'' ''southwest'' 0 = Inr xs \<and> length xs = 7)"
  by (simp add: valid_input_def input_data_def subscript_def gender_mapping_def
      smoker_mapping_def region_mapping_def)

text \<open>
  C2, amended: for every valid input the encoder returns a list of exactly 8 elements,
  each of them a number.
\<close>

theorem feature_vector_length_8:
  "valid_input gender age bmi smoker region children \<Longrightarrow>
   \<exists>xs. input_data gender age bmi smoker region children = Inr xs \<and> length xs = 8 \<and>
        list_all is_numeric xs"
  by (simp add: input_data_valid)

theorem feature_vector_length_8_witness:
  "valid_input ''Male'' 40 27.5 ''Yes'' ''northwest'' 2 \<and>
   (\<exists>xs. input_data ''Male'' 40 27.5 ''Yes'' ''northwest'' 2 = Inr xs \<and> length xs = 8 \<and>
        list_all is_numeric xs)"
proof -
  have v: "valid_input ''Male'' 40 27.5 ''Yes'' ''northwest'' 2"
    by (simp add: valid_input_def)
  from v feature_vector_length_8 [OF v] show ?thesis by simp
qed

text \<open>
  C3. For every valid input the list is, in this order, the gender code (0 for Female, 1
  for Male), the age, the BMI, the smoker code (1 for Yes, 0 for No), the flags of
  northeast, northwest and southeast (the flag of the input's region is 1 and the others
  are 0, so all three are 0 for southwest), and the number of children; age, BMI and
  children are the input's own.
\<close>

theorem encoder_order:
  "valid_input gender age bmi smoker region children \<Longrightarrow>
   input_data gender age bmi smoker region children =
     Inr [PyInt (if gender = ''Male'' then 1 else 0), PyInt age, PyFloat bmi,
          PyInt (if smoker = ''Yes'' then 1 else 0),
          PyInt (if region = ''northeast'' then 1 else 0),
          PyInt (if region = ''northwest'' then 1 else 0),
          PyInt (if region = ''southeast'' then 1 else 0),
          PyInt children]"
  by (rule input_data_valid)

theorem encoder_order_witness:
  "valid_input ''Male'' 61 31.4 ''Yes'' ''southeast'' 3 \<and>
   input_data ''Male'' 61 31.4 ''Yes'' ''southeast'' 3 =
     Inr [PyInt 1, PyInt 61, PyFloat 31.4, PyInt 1, PyInt 0, PyInt 0, PyInt 1, PyInt 3] \<and>
   valid_input ''Female'' 18 15 ''No'' ''southwest'' 0 \<and>
   input_data ''Female'' 18 15 ''No'' ''southwest'' 0 =
     Inr [PyInt 0, PyInt 18, PyFloat 15, PyInt 0, PyInt 0, PyInt 0, PyInt 0, PyInt 0]"
proof -
  have v: "valid_input ''Male'' 61 31.4 ''Yes'' ''southeast'' 3"
    and w: "valid_input ''Female'' 18 15 ''No'' ''southwest'' 0"
    by (simp_all add: valid_input_def)
  from v w encoder_order [OF v] encoder_order [OF w] show ?thesis by simp
qed

text \<open>
  C7. A region outside the four of the select box makes the encoder fail: it returns no
  list. When the gender and the smoking status are among their options, the error is the
  \<^verbatim>\<open>KeyError\<close> of the region subscript, carrying the region string; no encoding is
  substituted for the unknown region.
\<close>

theorem unknown_region_rejected:
  assumes "region \<notin> set [''northeast'', ''northwest'', ''southeast'', ''southwest'']"
  shows "(\<exists>e. input_data gender age bmi smoker region children = Inl e) \<and>
    (gender \<in> set [''Female'', ''Male''] \<and> smoker \<in> set [''No'', ''Yes''] \<longrightarrow>
     input_data gender age bmi smoker region children = Inl (KeyError region))"
  using assms
  by (auto simp: input_data_def subscript_def gender_mapping_def smoker_mapping_def
      region_mapping_def split: sum.splits option.splits)

theorem unknown_region_rejected_witness:
  "''midwest'' \<notin> set [''northeast'', ''northwest'', ''southeast'', ''southwest''] \<and>
   input_data ''Female'' 30 22 ''No'' ''midwest'' 1 = Inl (KeyError ''midwest'')"
  using unknown_region_rejected [of "''midwest''" "''Female''" 30 22 "''No''" 1]
  by simp

section \<open>Properties of the cost rating and of the recommendations\<close>

text \<open>
  C10. The cost rating is \<^verbatim>\<open>"Average"\<close> exactly when the prediction is below 10000,
  and \<^verbatim>\<open>"High"\<close> exactly when it is not.
\<close>

theorem cost_rating_threshold:
  "(cost_rating prediction = ''Average'') = (prediction < 10000) \<and>
   (cost_rating prediction = ''High'') = (\<not> prediction < 10000)"
  by (simp add: cost_rating_def)

text \<open>
  C6. The three rules are tested one after the other, each on its own: a BMI above 25
  gives the wellness line, the answer Yes the quitting line, an age above 50 the checkup
  line, in this order, and the default line appears exactly when none of the three did.
  A BMI of 30, the answer No and an age of 60 give two lines, wellness then checkup, and
  no quitting line. The four lines are different strings.
\<close>

theorem recommendations_rules:
  "recommendations bmi smoker age =
     (if 25 < bmi then [rec_wellness] else []) @
     (if smoker = ''Yes'' then [rec_quitting] else []) @
     (if 50 < age then [rec_checkup] else []) @
     (if 25 < bmi \<or> smoker = ''Yes'' \<or> 50 < age then [] else [rec_default]) \<and>
   recommendations 30 ''No'' 60 = [rec_wellness, rec_checkup] \<and>
   rec_quitting \<notin> set (recommendations 30 ''No'' 60) \<and>
   distinct [rec_wellness, rec_quitting, rec_checkup, rec_default]"
  by (simp add: recommendations_def Let_def rec_wellness_def rec_quitting_def
      rec_checkup_def rec_default_def)

section \<open>Properties of the cost allocator\<close>

declare bit_length.simps [simp del]

subsection \<open>The literals\<close>

text \<open>
  Each literal is a binary64 number with a full 53-bit significand, and lies within less
  than half a unit in its last place of the decimal: it is the float the decimal is read
  as.
\<close>

lemma literals_nearest:
  "\<bar>valof (Double 7205759403792794 (- 54)) - 0.4\<bar> < 2 powi (- 55)"
  "\<bar>valof (Double 5404319552844595 (- 55)) - 0.15\<bar> < 2 powi (- 56)"
  "\<bar>valof (Double 7205759403792794 (- 55)) - 0.2\<bar> < 2 powi (- 56)"
  "\<bar>valof (Double 7205759403792794 (- 56)) - 0.1\<bar> < 2 powi (- 57)"
  "is_double (Double 7205759403792794 (- 54))"
  "is_double (Double 5404319552844595 (- 55))"
  "is_double (Double 7205759403792794 (- 55))"
  "is_double (Double 7205759403792794 (- 56))"
  "(2::int) ^ 52 \<le> 5404319552844595" "(2::int) ^ 52 \<le> 7205759403792794"
  by simp_all

subsection \<open>The error of one rounding\<close>

text \<open>A positive number is at least the power of two of its highest bit.\<close>

lemma bit_length_lower: "0 < n \<Longrightarrow> 2 ^ (bit_length n - 1) \<le> n"
proof (induction n rule: bit_length.induct)
  case (1 n)
  show ?case
  proof (cases "n div 2 = 0")
    case True
    with 1(2) have "n = 1" by linarith
    then show ?thesis by (simp add: bit_length.simps)
  next
    case False
    with 1 have ih: "2 ^ (bit_length (n div 2) - 1) \<le> n div 2" by simp
    from False have pos: "0 < bit_length (n div 2)"
      by (simp add: bit_length.simps [of "n div 2"])
    have "bit_length n - 1 = Suc (bit_length (n div 2) - 1)"
      using 1(2) pos by (simp add: bit_length.simps [of n])
    with ih show ?thesis by simp
  qed
qed

text \<open>Rounding to the nearest integer is off by at most a half.\<close>

lemma round_half_even_error:
  "2 * \<bar>round_half_even m k * 2 ^ k - m\<bar> \<le> 2 ^ k"
proof -
  define P :: int where "P = 2 ^ k"
  define q where "q = m div P"
  define r where "r = m mod P"
  have P: "0 < P" by (simp add: P_def)
  have m: "m = q * P + r" by (simp add: q_def r_def)
  have r: "0 \<le> r" "r < P" using P by (simp_all add: r_def)
  have "round_half_even m k = q \<and> 2 * r \<le> P \<or> round_half_even m k = q + 1 \<and> P \<le> 2 * r"
    by (auto simp: round_half_even_def Let_def P_def q_def r_def)
  then show ?thesis
  proof
    assume a: "round_half_even m k = q \<and> 2 * r \<le> P"
    then have "round_half_even m k * P - m = - r" using m by (simp add: algebra_simps)
    with a r show ?thesis by (simp add: P_def [symmetric])
  next
    assume a: "round_half_even m k = q + 1 \<and> P \<le> 2 * r"
    then have "round_half_even m k * P - m = P - r" using m by (simp add: algebra_simps)
    with a r show ?thesis by (simp add: P_def [symmetric])
  qed
qed

lemma powi_mono2: "a \<le> b \<Longrightarrow> (2::real) powi a \<le> 2 powi b"
  by (rule power_int_increasing) simp_all

lemma powi_less_exp: "(2::real) powi a < 2 powi b \<Longrightarrow> a < b"
  using powi_mono2 [of b a] by (cases "a < b") simp_all

lemma powi_split: "(2::real) powi (a + b) = 2 powi a * 2 powi b"
  by (simp add: power_int_add)

text \<open>
  A result below \<open>2 ^ j\<close> in magnitude, with \<open>j\<close> in the normal range, does not
  overflow, and rounding it moves it by at most half a unit in the last place of that
  range, \<open>2 ^ (j - 54)\<close>.
\<close>

lemma round_double_error:
  fixes m e j :: int
  assumes x: "\<bar>of_int m * 2 powi e\<bar> < (2::real) powi j" and j: "- 1021 \<le> j" "j \<le> 1023"
  shows "\<exists>d. round_double m e = Some d \<and>
             \<bar>valof d - of_int m * 2 powi e\<bar> \<le> 2 powi (j - 54)"
proof -
  define bl where "bl = int (bit_length (nat \<bar>m\<bar>))"
  define k where "k = max (bl - 53) (- 1074 - e)"
  define d where
    "d = (if k \<le> 0 then Double m e else Double (round_half_even m (nat k)) (e + k))"
  have top: "(2::real) powi (j + 1) \<le> overflow_threshold"
    unfolding overflow_threshold_def using j by (intro powi_mono2) simp
  have err: "\<bar>valof d - of_int m * 2 powi e\<bar> \<le> 2 powi (j - 54)"
  proof (cases "k \<le> 0")
    case True
    then show ?thesis by (simp add: d_def)
  next
    case False
    define n where "n = nat k"
    define h where "h = round_half_even m n"
    from False have kn: "k = int n" and n: "0 < n" by (simp_all add: n_def)
    have d: "d = Double h (e + k)" using False by (simp add: d_def h_def n_def)
    have "valof d - of_int m * 2 powi e = of_int (h * 2 ^ n - m) * 2 powi e"
      by (simp add: d kn powi_split algebra_simps)
    then have "\<bar>valof d - of_int m * 2 powi e\<bar> = of_int \<bar>h * 2 ^ n - m\<bar> * 2 powi e"
      by (simp add: abs_mult)
    moreover have "2 * real_of_int \<bar>h * 2 ^ n - m\<bar> \<le> 2 ^ n"
      using round_half_even_error [of m n]
      by (metis h_def of_int_le_iff of_int_mult of_int_numeral of_int_power)
    then have "real_of_int \<bar>h * 2 ^ n - m\<bar> \<le> 2 powi (k - 1)"
      using n by (simp add: kn power_int_diff)
    then have "real_of_int \<bar>h * 2 ^ n - m\<bar> * 2 powi e \<le> 2 powi (k - 1) * 2 powi e"
      by (rule mult_right_mono) simp
    ultimately have half: "\<bar>valof d - of_int m * 2 powi e\<bar> \<le> 2 powi (k - 1 + e)"
      by (simp add: powi_split)
    have "k - 1 + e \<le> j - 54"
    proof (cases "- 1074 - e \<le> bl - 53")
      case True
      then have k: "k = bl - 53" by (simp add: k_def)
      with False have pos: "0 < nat \<bar>m\<bar>"
        by (cases "nat \<bar>m\<bar> = 0") (simp_all add: bl_def bit_length.simps)
      from bit_length_lower [OF pos] have "2 ^ (bit_length (nat \<bar>m\<bar>) - 1) \<le> nat \<bar>m\<bar>" .
      then have "(2::real) ^ (bit_length (nat \<bar>m\<bar>) - 1) \<le> real (nat \<bar>m\<bar>)"
        by (metis of_nat_le_iff of_nat_numeral of_nat_power)
      moreover have "real (nat \<bar>m\<bar>) = \<bar>of_int m\<bar>" by simp
      moreover have "(2::real) ^ (bit_length (nat \<bar>m\<bar>) - 1) = 2 powi (bl - 1)"
        using False k by (simp add: bl_def power_int_def nat_diff_distrib)
      ultimately have "(2::real) powi (bl - 1) \<le> \<bar>of_int m\<bar>" by simp
      then have "(2::real) powi (bl - 1) * 2 powi e \<le> \<bar>of_int m\<bar> * 2 powi e"
        by (rule mult_right_mono) simp
      then have "(2::real) powi (bl - 1 + e) \<le> \<bar>of_int m * 2 powi e\<bar>"
        by (simp add: powi_split abs_mult)
      with x have "(2::real) powi (bl - 1 + e) < 2 powi j" by simp
      then have "bl - 1 + e < j" by (rule powi_less_exp)
      with k show ?thesis by simp
    next
      case False
      then have "k = - 1074 - e" by (simp add: k_def)
      with j show ?thesis by simp
    qed
    then have "(2::real) powi (k - 1 + e) \<le> 2 powi (j - 54)" by (rule powi_mono2)
    with half show ?thesis by simp
  qed
  have "(2::real) powi (j - 54) \<le> 2 powi j" by (rule powi_mono2) simp
  with err x have "\<bar>valof d\<bar> < 2 powi j + 2 powi j" by linarith
  also have "\<dots> = 2 powi (j + 1)" by (simp add: powi_split)
  finally have "\<not> overflow_threshold \<le> \<bar>valof d\<bar>" using top by simp
  moreover have "round_double m e = (if overflow_threshold \<le> \<bar>valof d\<bar> then None else Some d)"
    by (simp only: round_double_def Let_def d_def k_def bl_def)
  ultimately have "round_double m e = Some d" by simp
  with err show ?thesis by blast
qed

lemma fmul_error:
  assumes "\<bar>valof a * valof b\<bar> < 2 powi j" and "- 1021 \<le> j" and "j \<le> 1023"
  shows "\<exists>d. fmul a b = Some d \<and> \<bar>valof d - valof a * valof b\<bar> \<le> 2 powi (j - 54)"
proof -
  obtain m1 e1 m2 e2 where ab: "a = Double m1 e1" "b = Double m2 e2"
    by (cases a, cases b) blast
  have eq: "of_int (m1 * m2) * 2 powi (e1 + e2) = valof a * valof b"
    by (simp add: ab powi_split)
  from assms(1) have "\<bar>of_int (m1 * m2) * 2 powi (e1 + e2)\<bar> < (2::real) powi j"
    by (simp only: eq)
  from round_double_error [OF this assms(2,3)] show ?thesis
    by (simp only: eq ab fmul.simps)
qed

lemma fadd_error:
  assumes "\<bar>valof a + valof b\<bar> < 2 powi j" and "- 1021 \<le> j" and "j \<le> 1023"
  shows "\<exists>d. fadd a b = Some d \<and> \<bar>valof d - (valof a + valof b)\<bar> \<le> 2 powi (j - 54)"
proof -
  obtain m1 e1 m2 e2 where ab: "a = Double m1 e1" "b = Double m2 e2"
    by (cases a, cases b) blast
  define e where "e = min e1 e2"
  define s where "s = m1 * 2 ^ nat (e1 - e) + m2 * 2 ^ nat (e2 - e)"
  have shift: "(2::real) ^ nat (i - e) * 2 powi e = 2 powi i" if "e \<le> i" for i
  proof -
    from that have "(2::real) ^ nat (i - e) = 2 powi (i - e)" by (simp add: power_int_def)
    then have "(2::real) ^ nat (i - e) * 2 powi e = 2 powi (i - e + e)"
      by (simp only: powi_split)
    then show ?thesis by simp
  qed
  have s1: "(2::real) ^ nat (e1 - e) * 2 powi e = 2 powi e1"
    and s2: "(2::real) ^ nat (e2 - e) * 2 powi e = 2 powi e2"
    by (rule shift, simp add: e_def)+
  have "of_int s * 2 powi e
        = of_int m1 * ((2::real) ^ nat (e1 - e) * 2 powi e)
          + of_int m2 * ((2::real) ^ nat (e2 - e) * 2 powi e)"
    by (simp add: s_def algebra_simps)
  also have "\<dots> = valof a + valof b"
    by (simp only: s1 s2 ab valof.simps)
  finally have eq: "of_int s * 2 powi e = valof a + valof b" .
  from assms(1) have "\<bar>of_int s * 2 powi e\<bar> < (2::real) powi j"
    by (simp only: eq)
  from round_double_error [OF this assms(2,3)]
  have "\<exists>d. round_double s e = Some d \<and> \<bar>valof d - (valof a + valof b)\<bar> \<le> 2 powi (j - 54)"
    by (simp only: eq)
  moreover have "fadd a b = round_double s e"
    by (simp only: ab fadd.simps Let_def s_def e_def)
  ultimately show ?thesis by simp
qed

subsection \<open>The five products and their sum\<close>

lemma scale_error:
  assumes p: "0 \<le> valof p" "valof p \<le> 1000000" and c: "0 \<le> valof c" "valof c \<le> 1 / 2"
  shows "\<exists>v. fmul p c = Some v \<and> \<bar>valof v - valof p * valof c\<bar> \<le> 1 / 34359738368"
proof -
  have "valof p * valof c \<le> 1000000 * (1 / 2)"
    using p c by (intro mult_mono) simp_all
  moreover have "0 \<le> valof p * valof c" using p c by simp
  ultimately have "\<bar>valof p * valof c\<bar> < 2 powi 19" by simp
  from fmul_error [OF this] show ?thesis by simp
qed

lemma add_error:
  assumes "\<bar>valof a + valof b\<bar> < 1048576"
  shows "\<exists>s. fadd a b = Some s \<and> \<bar>valof s - (valof a + valof b)\<bar> \<le> 1 / 17179869184"
proof -
  from assms have "\<bar>valof a + valof b\<bar> < 2 powi 20" by simp
  from fadd_error [OF this] show ?thesis by simp
qed

lemma lit_values:
  "valof (Double 7205759403792794 (- 54)) = 3602879701896397 / 9007199254740992"
  "valof (Double 5404319552844595 (- 55)) = 5404319552844595 / 36028797018963968"
  "valof (Double 7205759403792794 (- 55)) = 3602879701896397 / 18014398509481984"
  "valof (Double 7205759403792794 (- 56)) = 3602879701896397 / 36028797018963968"
  by simp_all

lemma abs_boundsD: "\<bar>x - y\<bar> \<le> (d::real) \<Longrightarrow> y - d \<le> x \<and> x \<le> y + d"
  by linarith

lemma breakdown_bounds:
  assumes p: "0 \<le> valof p" "valof p \<le> 1000000"
  shows "\<exists>v1 v2 v3 v4 v5 s.
    fmul p (Double 7205759403792794 (- 54)) = Some v1 \<and>
    fmul p (Double 5404319552844595 (- 55)) = Some v2 \<and>
    fmul p (Double 5404319552844595 (- 55)) = Some v3 \<and>
    fmul p (Double 7205759403792794 (- 55)) = Some v4 \<and>
    fmul p (Double 7205759403792794 (- 56)) = Some v5 \<and>
    \<bar>valof v1 - 0.4 * valof p\<bar> \<le> 1 / 10000000000 \<and>
    \<bar>valof v2 - 0.15 * valof p\<bar> \<le> 1 / 10000000000 \<and>
    \<bar>valof v3 - 0.15 * valof p\<bar> \<le> 1 / 10000000000 \<and>
    \<bar>valof v4 - 0.2 * valof p\<bar> \<le> 1 / 10000000000 \<and>
    \<bar>valof v5 - 0.1 * valof p\<bar> \<le> 1 / 10000000000 \<and>
    \<bar>valof v1 + valof v2 + valof v3 + valof v4 + valof v5 - valof p\<bar> \<le> 1 / 1000000000 \<and>
    py_sum [Some v1, Some v2, Some v3, Some v4, Some v5] = Some s \<and>
    \<bar>valof s - valof p\<bar> \<le> 1 / 1000000000"
proof -
  define P where "P = valof p"
  have P: "0 \<le> P" "P \<le> 1000000" using p by (simp_all add: P_def)
  obtain v1 where v1: "fmul p (Double 7205759403792794 (- 54)) = Some v1"
    and "\<bar>valof v1 - valof p * valof (Double 7205759403792794 (- 54))\<bar> \<le> 1 / 34359738368"
    using scale_error [OF p, of "Double 7205759403792794 (- 54)"] by auto
  then have b1: "P * (3602879701896397 / 9007199254740992) - 1 / 34359738368 \<le> valof v1"
      "valof v1 \<le> P * (3602879701896397 / 9007199254740992) + 1 / 34359738368"
    using abs_boundsD by (simp_all only: lit_values P_def)
  obtain v2 where v2: "fmul p (Double 5404319552844595 (- 55)) = Some v2"
    and "\<bar>valof v2 - valof p * valof (Double 5404319552844595 (- 55))\<bar> \<le> 1 / 34359738368"
    using scale_error [OF p, of "Double 5404319552844595 (- 55)"] by auto
  then have b2: "P * (5404319552844595 / 36028797018963968) - 1 / 34359738368 \<le> valof v2"
      "valof v2 \<le> P * (5404319552844595 / 36028797018963968) + 1 / 34359738368"
    using abs_boundsD by (simp_all only: lit_values P_def)
  obtain v4 where v4: "fmul p (Double 7205759403792794 (- 55)) = Some v4"
    and "\<bar>valof v4 - valof p * valof (Double 7205759403792794 (- 55))\<bar> \<le> 1 / 34359738368"
    using scale_error [OF p, of "Double 7205759403792794 (- 55)"] by auto
  then have b4: "P * (3602879701896397 / 18014398509481984) - 1 / 34359738368 \<le> valof v4"
      "valof v4 \<le> P * (3602879701896397 / 18014398509481984) + 1 / 34359738368"
    using abs_boundsD by (simp_all only: lit_values P_def)
  obtain v5 where v5: "fmul p (Double 7205759403792794 (- 56)) = Some v5"
    and "\<bar>valof v5 - valof p * valof (Double 7205759403792794 (- 56))\<bar> \<le> 1 / 34359738368"
    using scale_error [OF p, of "Double 7205759403792794 (- 56)"] by auto
  then have b5: "P * (3602879701896397 / 36028797018963968) - 1 / 34359738368 \<le> valof v5"
      "valof v5 \<le> P * (3602879701896397 / 36028797018963968) + 1 / 34359738368"
    using abs_boundsD by (simp_all only: lit_values P_def)
  define V1 V2 V4 V5 where "V1 = valof v1" and "V2 = valof v2" and "V4 = valof v4"
    and "V5 = valof v5"
  note b = b1 [folded V1_def] b2 [folded V2_def] b4 [folded V4_def] b5 [folded V5_def]
  have z: "valof (Double 0 0) = 0" by simp
  have "\<bar>valof (Double 0 0) + valof v1\<bar> < 1048576"
    unfolding z V1_def [symmetric] using b P by (simp only: abs_less_iff) linarith
  from add_error [OF this] obtain s1 where s1: "fadd (Double 0 0) v1 = Some s1"
    and "\<bar>valof s1 - (valof (Double 0 0) + valof v1)\<bar> \<le> 1 / 17179869184" by auto
  then have c1: "V1 - 1 / 17179869184 \<le> valof s1" "valof s1 \<le> V1 + 1 / 17179869184"
    unfolding z V1_def [symmetric] by linarith+
  define S1 where "S1 = valof s1"
  note c1 = c1 [folded S1_def]
  have "\<bar>valof s1 + valof v2\<bar> < 1048576"
    unfolding S1_def [symmetric] V2_def [symmetric] using b c1 P
    by (simp only: abs_less_iff) linarith
  from add_error [OF this] obtain s2 where s2: "fadd s1 v2 = Some s2"
    and "\<bar>valof s2 - (valof s1 + valof v2)\<bar> \<le> 1 / 17179869184" by auto
  then have c2: "S1 + V2 - 1 / 17179869184 \<le> valof s2"
      "valof s2 \<le> S1 + V2 + 1 / 17179869184"
    unfolding S1_def [symmetric] V2_def [symmetric] by linarith+
  define S2 where "S2 = valof s2"
  note c2 = c2 [folded S2_def]
  have "\<bar>valof s2 + valof v2\<bar> < 1048576"
    unfolding S2_def [symmetric] V2_def [symmetric] using b c1 c2 P
    by (simp only: abs_less_iff) linarith
  from add_error [OF this] obtain s3 where s3: "fadd s2 v2 = Some s3"
    and "\<bar>valof s3 - (valof s2 + valof v2)\<bar> \<le> 1 / 17179869184" by auto
  then have c3: "S2 + V2 - 1 / 17179869184 \<le> valof s3"
      "valof s3 \<le> S2 + V2 + 1 / 17179869184"
    unfolding S2_def [symmetric] V2_def [symmetric] by linarith+
  define S3 where "S3 = valof s3"
  note c3 = c3 [folded S3_def]
  have "\<bar>valof s3 + valof v4\<bar> < 1048576"
    unfolding S3_def [symmetric] V4_def [symmetric] using b c1 c2 c3 P
    by (simp only: abs_less_iff) linarith
  from add_error [OF this] obtain s4 where s4: "fadd s3 v4 = Some s4"
    and "\<bar>valof s4 - (valof s3 + valof v4)\<bar> \<le> 1 / 17179869184" by auto
  then have c4: "S3 + V4 - 1 / 17179869184 \<le> valof s4"
      "valof s4 \<le> S3 + V4 + 1 / 17179869184"
    unfolding S3_def [symmetric] V4_def [symmetric] by linarith+
  define S4 where "S4 = valof s4"
  note c4 = c4 [folded S4_def]
  have "\<bar>valof s4 + valof v5\<bar> < 1048576"
    unfolding S4_def [symmetric] V5_def [symmetric] using b c1 c2 c3 c4 P
    by (simp only: abs_less_iff) linarith
  from add_error [OF this] obtain s5 where s5: "fadd s4 v5 = Some s5"
    and "\<bar>valof s5 - (valof s4 + valof v5)\<bar> \<le> 1 / 17179869184" by auto
  then have c5: "S4 + V5 - 1 / 17179869184 \<le> valof s5"
      "valof s5 \<le> S4 + V5 + 1 / 17179869184"
    unfolding S4_def [symmetric] V5_def [symmetric] by linarith+
  define S5 where "S5 = valof s5"
  note c5 = c5 [folded S5_def]
  have sum: "py_sum [Some v1, Some v2, Some v2, Some v4, Some v5] = Some s5"
    by (simp add: py_sum_def s1 s2 s3 s4 s5)
  have e1: "\<bar>V1 - 0.4 * P\<bar> \<le> 1 / 10000000000" using b P by linarith
  have "\<bar>V2 - 15 / 100 * P\<bar> \<le> 1 / 10000000000" using b P by linarith
  then have e2: "\<bar>V2 - 0.15 * P\<bar> \<le> 1 / 10000000000" by simp
  have e4: "\<bar>V4 - 0.2 * P\<bar> \<le> 1 / 10000000000" using b P by linarith
  have e5: "\<bar>V5 - 0.1 * P\<bar> \<le> 1 / 10000000000" using b P by linarith
  have ex: "\<bar>V1 + V2 + V2 + V4 + V5 - P\<bar> \<le> 1 / 1000000000"
    using b P by linarith
  have fl: "\<bar>S5 - P\<bar> \<le> 1 / 1000000000"
    using b c1 c2 c3 c4 c5 P by linarith
  from v1 v2 v4 v5 sum e1 e2 e4 e5 ex fl show ?thesis
    unfolding V1_def V2_def V4_def V5_def S5_def P_def by blast
qed

text \<open>
  C5, amended: for every prediction from 0 to 1000000 (every binary64 number in that
  range, and indeed every \<open>Double m e\<close> in it), the allocator returns the five labels Base
  Cost, Age Factor, BMI Factor, Smoking Factor, Region Factor and five finite values, the
  rounded products of the prediction with the literals 0.4, 0.15, 0.15, 0.2 and 0.1. Each
  value is within \<open>10 ^ -10\<close> of its fraction of the prediction, and the sum of the five
  values is within \<open>10 ^ -9\<close> of the prediction, whether they are added exactly or in
  floats from left to right.
\<close>

theorem cost_breakdown_sum:
  assumes "0 \<le> valof p" and "valof p \<le> 1000000"
  shows "\<exists>v1 v2 v3 v4 v5 s.
    create_cost_breakdown (Some p) =
      ([''Base Cost'', ''Age Factor'', ''BMI Factor'', ''Smoking Factor'', ''Region Factor''],
       [Some v1, Some v2, Some v3, Some v4, Some v5]) \<and>
    \<bar>valof v1 - 0.4 * valof p\<bar> \<le> 1 / 10000000000 \<and>
    \<bar>valof v2 - 0.15 * valof p\<bar> \<le> 1 / 10000000000 \<and>
    \<bar>valof v3 - 0.15 * valof p\<bar> \<le> 1 / 10000000000 \<and>
    \<bar>valof v4 - 0.2 * valof p\<bar> \<le> 1 / 10000000000 \<and>
    \<bar>valof v5 - 0.1 * valof p\<bar> \<le> 1 / 10000000000 \<and>
    \<bar>valof v1 + valof v2 + valof v3 + valof v4 + valof v5 - valof p\<bar> \<le> 1 / 1000000000 \<and>
    py_sum (snd (create_cost_breakdown (Some p))) = Some s \<and>
    \<bar>valof s - valof p\<bar> \<le> 1 / 1000000000"
proof -
  from breakdown_bounds [OF assms] obtain v1 v2 v3 v4 v5 s where
    v: "fmul p (Double 7205759403792794 (- 54)) = Some v1"
       "fmul p (Double 5404319552844595 (- 55)) = Some v2"
       "fmul p (Double 5404319552844595 (- 55)) = Some v3"
       "fmul p (Double 7205759403792794 (- 55)) = Some v4"
       "fmul p (Double 7205759403792794 (- 56)) = Some v5"
    and b: "\<bar>valof v1 - 0.4 * valof p\<bar> \<le> 1 / 10000000000"
       "\<bar>valof v2 - 0.15 * valof p\<bar> \<le> 1 / 10000000000"
       "\<bar>valof v3 - 0.15 * valof p\<bar> \<le> 1 / 10000000000"
       "\<bar>valof v4 - 0.2 * valof p\<bar> \<le> 1 / 10000000000"
       "\<bar>valof v5 - 0.1 * valof p\<bar> \<le> 1 / 10000000000"
       "\<bar>valof v1 + valof v2 + valof v3 + valof v4 + valof v5 - valof p\<bar> \<le> 1 / 1000000000"
    and s: "py_sum [Some v1, Some v2, Some v3, Some v4, Some v5] = Some s"
       "\<bar>valof s - valof p\<bar> \<le> 1 / 1000000000"
    by blast
  from v(2,3) have v32: "v3 = v2" by simp
  have c: "create_cost_breakdown (Some p) =
      ([''Base Cost'', ''Age Factor'', ''BMI Factor'', ''Smoking Factor'', ''Region Factor''],
       [Some v1, Some v2, Some v3, Some v4, Some v5])"
    by (simp add: create_cost_breakdown_def Let_def lit_0_4_def lit_0_15_def lit_0_2_def
        lit_0_1_def v(1,2,4,5) v32)
  from s have "py_sum (snd (create_cost_breakdown (Some p))) = Some s"
    by (simp only: c snd_conv)
  with c b s(2) show ?thesis by blast
qed

text \<open>
  A prediction of the size the model returns: 16884.924 as a float, which is
  \<open>145040392750891 * 2 ^ -33\<close>.
\<close>

theorem cost_breakdown_sum_witness:
  "is_double (Double 145040392750891 (- 33)) \<and>
   0 \<le> valof (Double 145040392750891 (- 33)) \<and>
   valof (Double 145040392750891 (- 33)) \<le> 1000000 \<and>
   (\<exists>s. py_sum (snd (create_cost_breakdown (Some (Double 145040392750891 (- 33))))) = Some s \<and>
        \<bar>valof s - valof (Double 145040392750891 (- 33))\<bar> \<le> 1 / 1000000000)"
proof -
  have h: "0 \<le> valof (Double 145040392750891 (- 33))"
    "valof (Double 145040392750891 (- 33)) \<le> 1000000"
    by simp_all
  from cost_breakdown_sum [OF h] obtain s where
    "py_sum (snd (create_cost_breakdown (Some (Double 145040392750891 (- 33))))) = Some s"
    "\<bar>valof s - valof (Double 145040392750891 (- 33))\<bar> \<le> 1 / 1000000000"
    by blast
  then have "\<exists>s. py_sum (snd (create_cost_breakdown (Some (Double 145040392750891 (- 33)))))
        = Some s \<and> \<bar>valof s - valof (Double 145040392750891 (- 33))\<bar> \<le> 1 / 1000000000"
    by blast
  moreover have "is_double (Double 145040392750891 (- 33))" by simp
  ultimately show ?thesis using h by blast
qed

subsection \<open>A prediction beyond the tolerance\<close>

text \<open>
  Evaluating a rounding: the bit length of the exact significand, the number of bits
  dropped and the rounded significand are computed one by one.
\<close>

lemma small_no_overflow: "\<bar>x\<bar> \<le> 2 ^ 64 \<Longrightarrow> \<not> overflow_threshold \<le> \<bar>x\<bar>"
proof -
  assume a: "\<bar>x\<bar> \<le> 2 ^ 64"
  have "(2::real) powi 64 < 2 powi 1024" by (rule power_int_strict_increasing) simp_all
  then have "(2::real) ^ 64 < overflow_threshold" by (simp only: overflow_threshold_def power_int_numeral)
  with a show ?thesis by linarith
qed

lemma round_double_rounds:
  assumes "bit_length (nat \<bar>m\<bar>) = b"
    and "max (int b - 53) (- 1074 - e) = int n" and "0 < n"
    and "round_half_even m n = h"
    and "\<bar>valof (Double h (e + int n))\<bar> \<le> 2 ^ 64"
  shows "round_double m e = Some (Double h (e + int n))"
  using assms small_no_overflow [of "valof (Double h (e + int n))"]
  by (simp add: round_double_def Let_def)

lemma round_double_exact:
  assumes "bit_length (nat \<bar>m\<bar>) = b"
    and "max (int b - 53) (- 1074 - e) \<le> 0"
    and "\<bar>valof (Double m e)\<bar> \<le> 2 ^ 64"
  shows "round_double m e = Some (Double m e)"
  using assms small_no_overflow [of "valof (Double m e)"]
  by (simp add: round_double_def Let_def)

lemma mul_0_4: "fmul (Double 1000000001 0) (Double 7205759403792794 (- 54))
    = Some (Double 6710886406710887 (- 24))"
  using round_double_rounds [of 7205759410998553403792794 83 "- 54" 30 6710886406710887]
  by (simp add: bit_length.simps round_half_even_def Let_def)

lemma mul_0_15: "fmul (Double 1000000001 0) (Double 5404319552844595 (- 55))
    = Some (Double 5033164805033165 (- 25))"
  using round_double_rounds [of 5404319558248914552844595 83 "- 55" 30 5033164805033165]
  by (simp add: bit_length.simps round_half_even_def Let_def)

lemma mul_0_2: "fmul (Double 1000000001 0) (Double 7205759403792794 (- 55))
    = Some (Double 6710886406710887 (- 25))"
  using round_double_rounds [of 7205759410998553403792794 83 "- 55" 30 6710886406710887]
  by (simp add: bit_length.simps round_half_even_def Let_def)

lemma mul_0_1: "fmul (Double 1000000001 0) (Double 7205759403792794 (- 56))
    = Some (Double 6710886406710887 (- 26))"
  using round_double_rounds [of 7205759410998553403792794 83 "- 56" 30 6710886406710887]
  by (simp add: bit_length.simps round_half_even_def Let_def)

lemma add_1: "fadd (Double 0 0) (Double 6710886406710887 (- 24))
    = Some (Double 6710886406710887 (- 24))"
  using round_double_exact [of 6710886406710887 53 "- 24"]
  by (simp add: bit_length.simps Let_def)

lemma add_2: "fadd (Double 6710886406710887 (- 24)) (Double 5033164805033165 (- 25))
    = Some (Double 4613734404613735 (- 23))"
  using round_double_rounds [of 18454937618454939 55 "- 25" 2 4613734404613735]
  by (simp add: bit_length.simps round_half_even_def Let_def)

lemma add_3: "fadd (Double 4613734404613735 (- 23)) (Double 5033164805033165 (- 25))
    = Some (Double 5872025605872026 (- 23))"
  using round_double_rounds [of 23488102423488105 55 "- 25" 2 5872025605872026]
  by (simp add: bit_length.simps round_half_even_def Let_def)

lemma add_4: "fadd (Double 5872025605872026 (- 23)) (Double 6710886406710887 (- 25))
    = Some (Double 7549747207549748 (- 23))"
  using round_double_rounds [of 30198988830198991 55 "- 25" 2 7549747207549748]
  by (simp add: bit_length.simps round_half_even_def Let_def)

lemma add_5: "fadd (Double 7549747207549748 (- 23)) (Double 6710886406710887 (- 26))
    = Some (Double 8388608008388609 (- 23))"
  using round_double_rounds [of 67108864067108871 56 "- 26" 3 8388608008388609]
  by (simp add: bit_length.simps round_half_even_def Let_def)

text \<open>
  C5, as the specification states it, fails for large predictions. At the prediction
  1000000001.0 the five values are the floats printed as 400000000.40000004,
  150000000.15, 150000000.15, 200000000.20000002 and 100000000.10000001. Added in floats
  from left to right they give \<open>1000000001 + 2 ^ -23\<close>, about \<open>1.2 * 10 ^ -7\<close> above
  the prediction; added exactly they are \<open>5 * 2 ^ -26\<close>, about \<open>7.5 * 10 ^ -8\<close>, above
  it. Both are more than \<open>10 ^ -9\<close>.
\<close>

theorem cost_breakdown_sum_off:
  "is_double (Double 1000000001 0) \<and> valof (Double 1000000001 0) = 1000000001 \<and>
   create_cost_breakdown (Some (Double 1000000001 0)) =
     ([''Base Cost'', ''Age Factor'', ''BMI Factor'', ''Smoking Factor'', ''Region Factor''],
      [Some (Double 6710886406710887 (- 24)),
       Some (Double 5033164805033165 (- 25)),
       Some (Double 5033164805033165 (- 25)),
       Some (Double 6710886406710887 (- 25)),
       Some (Double 6710886406710887 (- 26))]) \<and>
   py_sum (snd (create_cost_breakdown (Some (Double 1000000001 0)))) =
     Some (Double 8388608008388609 (- 23)) \<and>
   \<not> \<bar>valof (Double 8388608008388609 (- 23)) - valof (Double 1000000001 0)\<bar>
       \<le> 1 / 1000000000 \<and>
   \<not> \<bar>valof (Double 6710886406710887 (- 24)) + valof (Double 5033164805033165 (- 25))
       + valof (Double 5033164805033165 (- 25)) + valof (Double 6710886406710887 (- 25))
       + valof (Double 6710886406710887 (- 26)) - valof (Double 1000000001 0)\<bar>
       \<le> 1 / 1000000000"
proof -
  have c: "create_cost_breakdown (Some (Double 1000000001 0)) =
     ([''Base Cost'', ''Age Factor'', ''BMI Factor'', ''Smoking Factor'', ''Region Factor''],
      [Some (Double 6710886406710887 (- 24)),
       Some (Double 5033164805033165 (- 25)),
       Some (Double 5033164805033165 (- 25)),
       Some (Double 6710886406710887 (- 25)),
       Some (Double 6710886406710887 (- 26))])"
    by (simp add: create_cost_breakdown_def Let_def lit_0_4_def lit_0_15_def lit_0_2_def
        lit_0_1_def mul_0_4 mul_0_15 mul_0_2 mul_0_1 del: fmul.simps)
  have s: "py_sum (snd (create_cost_breakdown (Some (Double 1000000001 0)))) =
     Some (Double 8388608008388609 (- 23))"
    by (simp add: c py_sum_def add_1 add_2 add_3 add_4 add_5 del: fadd.simps)
  have d1: "\<not> \<bar>valof (Double 8388608008388609 (- 23)) - valof (Double 1000000001 0)\<bar>
       \<le> 1 / 1000000000"
    by simp
  have d2: "\<not> \<bar>valof (Double 6710886406710887 (- 24)) + valof (Double 5033164805033165 (- 25))
       + valof (Double 5033164805033165 (- 25)) + valof (Double 6710886406710887 (- 25))
       + valof (Double 6710886406710887 (- 26)) - valof (Double 1000000001 0)\<bar>
       \<le> 1 / 1000000000"
    by simp
  have i: "is_double (Double 1000000001 0)" "valof (Double 1000000001 0) = 1000000001"
    by simp_all
  from i c s d1 d2 show ?thesis by (intro conjI)
qed

end
